theory Spec2Isabelle
  imports Complex_Main
begin

section \<open>Bitbucket OAuth2 backend (social\_auth/backends/bitbucket.py)\<close>

text \<open>
  The module has four functions: \<open>BitbucketBackend._fetch_primary_email\<close>,
  \<open>BitbucketBackend.get_user_details\<close>, \<open>BitbucketBackend.get_user_id\<close> and
  \<open>BitbucketAuth.user_data\<close>. They work on the values \<open>simplejson\<close> produces from
  a response body and on the two library calls \<open>dsa_urlopen\<close> and \<open>simplejson.load\<close>.
  Strings are byte strings. The library semantics are those of Python 3.7 and later:
  a dictionary keeps insertion order, and \<open>quote\<close> leaves \<open>~\<close> unescaped.
\<close>

subsection \<open>Python values\<close>

text \<open>A Python float as \<open>simplejson\<close> can produce it (it also accepts NaN and Infinity).\<close>

datatype pyfloat = Finite rat | PosInfinity | NegInfinity | NaN

text \<open>
  What \<open>simplejson.load\<close> returns: \<open>None\<close>, a bool, an int, a float, a string, a list or
  a dict with string keys. A dict is an association list in insertion order; a lookup takes
  the first entry of a key (\<open>map_of\<close>).
\<close>

datatype json =
    JNull
  | JBool bool
  | JInt int
  | JFloat pyfloat
  | JStr string
  | JList "json list"
  | JObj "(string \<times> json) list"

text \<open>
  The exceptions the module meets. \<open>JSONDecodeError\<close> is a subclass of \<open>ValueError\<close> and
  \<open>HTTPError\<close> a subclass of \<open>URLError\<close>; \<open>SocketTimeout\<close> stands for \<open>socket.timeout\<close>.
\<close>

datatype exn =
    ValueError
  | JSONDecodeError
  | HTTPError
  | URLError
  | SocketTimeout
  | AttributeError
  | TypeError
  | KeyError

text \<open>\<open>isinstance e cls\<close>: an \<open>except cls\<close> clause catches \<open>e\<close>.\<close>

fun isinstance :: "exn \<Rightarrow> exn \<Rightarrow> bool" where
  "isinstance JSONDecodeError ValueError = True"
| "isinstance HTTPError URLError = True"
| "isinstance e cls = (e = cls)"

text \<open>Truth value of a Python object, as \<open>if x\<close> and \<open>x or y\<close> test it.\<close>

fun truthy :: "json \<Rightarrow> bool" where
  "truthy JNull = False"
| "truthy (JBool b) = b"
| "truthy (JInt n) = (n \<noteq> 0)"
| "truthy (JFloat (Finite q)) = (q \<noteq> 0)"
| "truthy (JFloat _) = True"
| "truthy (JStr s) = (s \<noteq> [])"
| "truthy (JList xs) = (xs \<noteq> [])"
| "truthy (JObj kvs) = (kvs \<noteq> [])"

text \<open>\<open>obj.get(key, default)\<close>: only a dict has the method.\<close>

fun py_get :: "json \<Rightarrow> string \<Rightarrow> json \<Rightarrow> exn + json" where
  "py_get (JObj kvs) key dflt = Inr (case map_of kvs key of None \<Rightarrow> dflt | Some v \<Rightarrow> v)"
| "py_get _ key dflt = Inl AttributeError"

text \<open>\<open>obj[key]\<close> with a string key: \<open>KeyError\<close> on a dict without it, \<open>TypeError\<close> on
  anything that is not a dict (\<open>None\<close>, numbers, strings and lists take no string index).\<close>

fun py_getitem :: "json \<Rightarrow> string \<Rightarrow> exn + json" where
  "py_getitem (JObj kvs) key = (case map_of kvs key of None \<Rightarrow> Inl KeyError | Some v \<Rightarrow> Inr v)"
| "py_getitem _ key = Inl TypeError"

text \<open>\<open>for x in obj\<close>: a list gives its elements, a string its characters, a dict its keys;
  nothing else is iterable.\<close>

fun py_iter :: "json \<Rightarrow> exn + json list" where
  "py_iter (JList xs) = Inr xs"
| "py_iter (JStr s) = Inr (map (\<lambda>c. JStr [c]) s)"
| "py_iter (JObj kvs) = Inr (map (\<lambda>kv. JStr (fst kv)) kvs)"
| "py_iter _ = Inl TypeError"

subsection \<open>The library calls\<close>

text \<open>
  \<open>dsa_urlopen\<close> (social\_auth.utils) and \<open>simplejson.load\<close> are not part of the module:
  they are parameters. \<open>dsa_urlopen url\<close> raises or returns the response body;
  \<open>simplejson_load body\<close> raises or returns the parsed value. \<open>py_repr\<close> is Python's
  \<open>str\<close> of a float, a list or a dict, which \<open>urlencode\<close> applies to a value that is no string.
\<close>

record env =
  dsa_urlopen :: "string \<Rightarrow> exn + string"
  simplejson_load :: "string \<Rightarrow> exn + json"
  py_repr :: "json \<Rightarrow> string"

subsection \<open>urlencode\<close>

definition hex_digit :: "nat \<Rightarrow> char" where
  "hex_digit n = ''0123456789ABCDEF'' ! n"

text \<open>The characters \<open>quote\<close> never escapes: letters, digits and \<open>_.-~\<close>.\<close>

definition always_safe :: "char \<Rightarrow> bool" where
  "always_safe c =
     (c \<in> set ''ABCDEFGHIJKLMNOPQRSTUVWXYZabcdefghijklmnopqrstuvwxyz0123456789_.-~'')"

definition quote_char :: "char \<Rightarrow> string" where
  "quote_char c =
     (if always_safe c then [c]
      else if c = CHR '' '' then ''+''
      else [CHR ''%'', hex_digit (of_char c div 16), hex_digit (of_char c mod 16)])"

definition quote_plus :: "string \<Rightarrow> string" where
  "quote_plus s = concat (map quote_char s)"

fun str_nat :: "nat \<Rightarrow> string" where
  "str_nat n = (if n < 10 then [hex_digit n] else str_nat (n div 10) @ [hex_digit (n mod 10)])"

definition str_int :: "int \<Rightarrow> string" where
  "str_int i = (if i < 0 then CHR ''-'' # str_nat (nat (- i)) else str_nat (nat i))"

text \<open>\<open>str(v)\<close>, as \<open>urlencode\<close> takes it of a value.\<close>

fun py_str :: "env \<Rightarrow> json \<Rightarrow> string" where
  "py_str E (JStr s) = s"
| "py_str E JNull = ''None''"
| "py_str E (JBool b) = (if b then ''True'' else ''False'')"
| "py_str E (JInt i) = str_int i"
| "py_str E v = py_repr E v"

fun join :: "string \<Rightarrow> string list \<Rightarrow> string" where
  "join sep [] = []"
| "join sep [x] = x"
| "join sep (x # y # ys) = x @ sep @ join sep (y # ys)"

text \<open>\<open>urlencode(query)\<close> for a dict \<open>query\<close>, given as its items in order.\<close>

definition urlencode :: "env \<Rightarrow> (string \<times> json) list \<Rightarrow> string" where
  "urlencode E query =
     join ''&'' (map (\<lambda>kv. quote_plus (fst kv) @ ''='' @ quote_plus (py_str E (snd kv))) query)"

subsection \<open>The module\<close>

definition BITBUCKET_USER_DATA_URL :: string where
  "BITBUCKET_USER_DATA_URL = ''https://bitbucket.org/api/2.0/user/''"

text \<open>\<open>simplejson.load(dsa_urlopen(url))\<close>: the first exception raised wins.\<close>

definition load_url :: "env \<Rightarrow> string \<Rightarrow> exn + json" where
  "load_url E url =
     (case dsa_urlopen E url of
        Inl e \<Rightarrow> Inl e
      | Inr body \<Rightarrow> simplejson_load E body)"

text \<open>The URL \<open>_fetch_primary_email\<close> builds (lines 41 to 45).\<close>

definition emails_url :: "env \<Rightarrow> json \<Rightarrow> string" where
  "emails_url E access_token =
     BITBUCKET_USER_DATA_URL @ ''/emails?'' @
     urlencode E [(''fields'', JStr ''-values.links''),
                  (''pagelen'', JInt 100),
                  (''access_token'', access_token)]"

text \<open>The \<open>for\<close> loop of \<open>_fetch_primary_email\<close> (lines 51 to 56): the first truthy
  \<open>is_primary\<close> ends it; an element that is no dict raises.\<close>

fun primary_loop :: "json list \<Rightarrow> exn + json" where
  "primary_loop [] = Inr (JStr '''')"
| "primary_loop (email # emails) =
     (case py_get email ''is_primary'' (JBool False) of
        Inl e \<Rightarrow> Inl e
      | Inr flag \<Rightarrow>
          if truthy flag then py_get email ''email'' (JStr '''')
          else primary_loop emails)"

text \<open>The \<open>try\<close> block of lines 47 to 50: \<open>ValueError\<close> and \<open>HTTPError\<close> (and their
  subclasses) give the empty list, anything else propagates, also the \<open>AttributeError\<close> of
  \<open>.get\<close> on a body that is no dict.\<close>

definition fetch_emails :: "env \<Rightarrow> string \<Rightarrow> exn + json" where
  "fetch_emails E url =
     (case (case load_url E url of
              Inl e \<Rightarrow> Inl e
            | Inr data \<Rightarrow> py_get data ''values'' (JList [])) of
        Inl e \<Rightarrow>
          if isinstance e ValueError \<or> isinstance e HTTPError then Inr (JList []) else Inl e
      | Inr emails \<Rightarrow> Inr emails)"

definition fetch_primary_email :: "env \<Rightarrow> json \<Rightarrow> exn + json" where
  "fetch_primary_email E access_token =
     (let url = emails_url E access_token in
      case fetch_emails E url of
        Inl e \<Rightarrow> Inl e
      | Inr emails \<Rightarrow>
          (case py_iter emails of
             Inl e \<Rightarrow> Inl e
           | Inr items \<Rightarrow> primary_loop items))"

text \<open>\<open>name.split(' ', 1)\<close> on a string: one cut, at the first space character.\<close>

definition split_space_1 :: "string \<Rightarrow> string list" where
  "split_space_1 name =
     (if CHR '' '' \<in> set name
      then [takeWhile (\<lambda>c. c \<noteq> CHR '' '') name, tl (dropWhile (\<lambda>c. c \<noteq> CHR '' '') name)]
      else [name])"

text \<open>
  \<open>get_user_details\<close> (lines 58 to 74). \<open>details\<close> is the dict under construction, a map
  from keys to values. The tuple assignment of line 68 raises \<open>ValueError\<close> unless the
  split has two parts, and only that is caught; a \<open>display_name\<close> that is truthy and no
  string has no \<open>split\<close>, which raises \<open>AttributeError\<close>.
\<close>

definition get_user_details :: "env \<Rightarrow> json \<Rightarrow> exn + (string \<rightharpoonup> json)" where
  "get_user_details E response =
     (case py_get response ''display_name'' JNull of
        Inl e \<Rightarrow> Inl e
      | Inr dn \<Rightarrow>
     (let name = (if truthy dn then dn else JStr '''') in
      case py_get response ''username'' JNull of
        Inl e \<Rightarrow> Inl e
      | Inr username \<Rightarrow>
     (let details = [''username'' \<mapsto> username] in
      case py_get response ''access_token'' JNull of
        Inl e \<Rightarrow> Inl e
      | Inr access_token \<Rightarrow>
     (case fetch_primary_email E access_token of
        Inl e \<Rightarrow> Inl e
      | Inr email \<Rightarrow>
     (let details = details(''email'' \<mapsto> email) in
      case name of
        JStr s \<Rightarrow>
          (case split_space_1 s of
             [first_name, last_name] \<Rightarrow>
               Inr (details(''first_name'' \<mapsto> JStr first_name, ''last_name'' \<mapsto> JStr last_name))
           | _ \<Rightarrow> Inr (details(''first_name'' \<mapsto> name)))
      | _ \<Rightarrow> Inl AttributeError)))))"

text \<open>\<open>get_user_id\<close> (lines 76 to 79): \<open>response['uuid']\<close>; \<open>details\<close> is not used.\<close>

definition get_user_id :: "(string \<rightharpoonup> json) \<Rightarrow> json \<Rightarrow> exn + json" where
  "get_user_id details response = py_getitem response ''uuid''"

text \<open>The URL \<open>user_data\<close> builds (lines 93 to 96).\<close>

definition user_data_url :: "env \<Rightarrow> json \<Rightarrow> string" where
  "user_data_url E access_token =
     BITBUCKET_USER_DATA_URL @ ''?'' @
     urlencode E [(''fields'', JStr ''-links''), (''access_token'', access_token)]"

text \<open>\<open>user_data\<close> (lines 91 to 103): a \<open>ValueError\<close> gives \<open>None\<close>, anything else
  propagates.\<close>

definition user_data :: "env \<Rightarrow> json \<Rightarrow> exn + json" where
  "user_data E access_token =
     (let url = user_data_url E access_token in
      case load_url E url of
        Inl e \<Rightarrow> if isinstance e ValueError then Inr JNull else Inl e
      | Inr data \<Rightarrow> Inr data)"

subsection \<open>Email records, and the name split of the specification\<close>

text \<open>An email record of the provider's response: a dict with a string \<open>email\<close> and a
  boolean \<open>is_primary\<close>.\<close>

definition email_record :: "json \<Rightarrow> bool" where
  "email_record r =
     (case r of
        JObj kvs \<Rightarrow>
          (case (map_of kvs ''email'', map_of kvs ''is_primary'') of
             (Some (JStr e), Some (JBool b)) \<Rightarrow> True
           | _ \<Rightarrow> False)
      | _ \<Rightarrow> False)"

definition isPrimary :: "json \<Rightarrow> bool" where
  "isPrimary r =
     (case r of JObj kvs \<Rightarrow> map_of kvs ''is_primary'' = Some (JBool True) | _ \<Rightarrow> False)"

definition email_field :: "json \<Rightarrow> json" where
  "email_field r =
     (case r of
        JObj kvs \<Rightarrow> (case map_of kvs ''email'' of Some e \<Rightarrow> e | None \<Rightarrow> JStr '''')
      | _ \<Rightarrow> JStr '''')"

text \<open>
  The split the specification words: at the first run of whitespace (space, tab, line feed,
  vertical tab, form feed, carriage return), the text before the run and the text after it;
  a name without whitespace is the first part whole, with an empty second part.
\<close>

definition is_whitespace :: "char \<Rightarrow> bool" where
  "is_whitespace c = (c \<in> set [CHR '' '', CHR 0x09, CHR 0x0A, CHR 0x0B, CHR 0x0C, CHR 0x0D])"

definition split_first_whitespace_run :: "string \<Rightarrow> string \<times> string" where
  "split_first_whitespace_run name =
     (takeWhile (\<lambda>c. \<not> is_whitespace c) name,
      dropWhile is_whitespace (dropWhile (\<lambda>c. \<not> is_whitespace c) name))"

subsection \<open>Example worlds\<close>

text \<open>
  The end-to-end scenario of the specification: the token \<open>tok123\<close>, the profile of
  \<open>grace\<close> and her two email records, the second one primary. \<open>EMAILS\<close> and \<open>PROFILE\<close>
  stand for the two response bodies.
\<close>

definition scenario_env :: env where
  "scenario_env =
     \<lparr>dsa_urlopen = (\<lambda>url.
        if url = ''https://bitbucket.org/api/2.0/user//emails?fields=-values.links&pagelen=100&access_token=tok123''
        then Inr ''EMAILS''
        else if url = ''https://bitbucket.org/api/2.0/user/?fields=-links&access_token=tok123''
        then Inr ''PROFILE''
        else Inl HTTPError),
      simplejson_load = (\<lambda>body.
        if body = ''EMAILS''
        then Inr (JObj [(''values'', JList
               [JObj [(''email'', JStr ''g@x.com''), (''is_primary'', JBool False)],
                JObj [(''email'', JStr ''grace@x.com''), (''is_primary'', JBool True)]])])
        else if body = ''PROFILE''
        then Inr (JObj [(''username'', JStr ''grace''), (''uuid'', JStr ''abc-123''),
                        (''display_name'', JStr ''Grace Hopper'')])
        else Inl JSONDecodeError),
      py_repr = (\<lambda>v. [])\<rparr>"

text \<open>No connection: every request raises \<open>URLError\<close>.\<close>

definition offline_env :: env where
  "offline_env =
     \<lparr>dsa_urlopen = (\<lambda>url. Inl URLError),
      simplejson_load = (\<lambda>body. Inl JSONDecodeError),
      py_repr = (\<lambda>v. [])\<rparr>"

text \<open>The provider answers every request with an error status: \<open>HTTPError\<close>.\<close>

definition denied_env :: env where
  "denied_env =
     \<lparr>dsa_urlopen = (\<lambda>url. Inl HTTPError),
      simplejson_load = (\<lambda>body. Inl JSONDecodeError),
      py_repr = (\<lambda>v. [])\<rparr>"

text \<open>The provider answers every request with a body that is no JSON.\<close>

definition garbled_env :: env where
  "garbled_env =
     \<lparr>dsa_urlopen = (\<lambda>url. Inr ''<html>Service Unavailable</html>''),
      simplejson_load = (\<lambda>body. Inl JSONDecodeError),
      py_repr = (\<lambda>v. [])\<rparr>"

subsection \<open>Reading a request URL back\<close>

text \<open>
  What a server reads from a URL: the path before the \<open>?\<close>, and the query after it as a
  list of parameters, cut at \<open>&\<close>, each cut at its first \<open>=\<close> and percent-decoded
  (\<open>+\<close> is a space, \<open>%XX\<close> the byte with these two hexadecimal digits). This is the
  reading of the specification's request shapes, not code of the module.
\<close>

definition unhex :: "char \<Rightarrow> nat option" where
  "unhex c =
     (let n = (of_char c :: nat) in
      if 48 \<le> n \<and> n \<le> 57 then Some (n - 48)
      else if 65 \<le> n \<and> n \<le> 70 then Some (n - 55)
      else if 97 \<le> n \<and> n \<le> 102 then Some (n - 87)
      else None)"

fun unquote_plus :: "string \<Rightarrow> string" where
  "unquote_plus [] = []"
| "unquote_plus (c # cs) =
     (if c = CHR ''+'' then CHR '' '' # unquote_plus cs
      else if c = CHR ''%'' then
        (case cs of
           a # b # rest \<Rightarrow>
             (case (unhex a, unhex b) of
                (Some h, Some l) \<Rightarrow> char_of (16 * h + l) # unquote_plus rest
              | _ \<Rightarrow> c # unquote_plus cs)
         | _ \<Rightarrow> c # unquote_plus cs)
      else c # unquote_plus cs)"

fun split_char :: "char \<Rightarrow> string \<Rightarrow> string list" where
  "split_char sep [] = [[]]"
| "split_char sep (c # cs) =
     (if c = sep then [] # split_char sep cs
      else (case split_char sep cs of
              w # ws \<Rightarrow> (c # w) # ws
            | [] \<Rightarrow> [[c]]))"

definition query_parameters :: "string \<Rightarrow> (string \<times> string) list" where
  "query_parameters query =
     map (\<lambda>field. (unquote_plus (takeWhile (\<lambda>c. c \<noteq> CHR ''='') field),
                    unquote_plus (drop 1 (dropWhile (\<lambda>c. c \<noteq> CHR ''='') field))))
         (split_char CHR ''&'' query)"

definition url_path :: "string \<Rightarrow> string" where
  "url_path url = takeWhile (\<lambda>c. c \<noteq> CHR ''?'') url"

definition url_query :: "string \<Rightarrow> string" where
  "url_query url = drop 1 (dropWhile (\<lambda>c. c \<noteq> CHR ''?'') url)"

section \<open>Properties\<close>

subsection \<open>Request URLs on a string token\<close>

lemma emails_url_str:
  "emails_url E (JStr t) =
     BITBUCKET_USER_DATA_URL @ ''/emails?fields=-values.links&pagelen=100&access_token='' @ quote_plus t"
  by (simp add: emails_url_def urlencode_def quote_plus_def quote_char_def always_safe_def
      str_int_def hex_digit_def)

lemma user_data_url_str:
  "user_data_url E (JStr t) =
     BITBUCKET_USER_DATA_URL @ ''?fields=-links&access_token='' @ quote_plus t"
  by (simp add: user_data_url_def urlencode_def quote_plus_def quote_char_def always_safe_def)

lemma quote_plus_tok123: "quote_plus ''tok123'' = ''tok123''"
  by (simp add: quote_plus_def quote_char_def always_safe_def)

lemma scenario_load_emails:
  "load_url scenario_env (emails_url scenario_env (JStr ''tok123'')) =
     Inr (JObj [(''values'', JList
               [JObj [(''email'', JStr ''g@x.com''), (''is_primary'', JBool False)],
                JObj [(''email'', JStr ''grace@x.com''), (''is_primary'', JBool True)]])])"
  by (simp add: load_url_def emails_url_str quote_plus_tok123 BITBUCKET_USER_DATA_URL_def
      scenario_env_def)

lemma always_safe_not_special:
  "always_safe c \<Longrightarrow>
     c \<noteq> CHR ''+'' \<and> c \<noteq> CHR ''%'' \<and> c \<noteq> CHR ''&'' \<and> c \<noteq> CHR ''='' \<and> c \<noteq> CHR ''?''"
  by (auto simp: always_safe_def)

lemma hex_digits_checked:
  "list_all (\<lambda>n. unhex (hex_digit n) = Some n \<and> hex_digit n \<noteq> CHR ''&'' \<and>
                  hex_digit n \<noteq> CHR ''='' \<and> hex_digit n \<noteq> CHR ''?'') [0..<16]"
  by code_simp

lemma hex_digit_props:
  assumes "n < 16"
  shows "unhex (hex_digit n) = Some n"
    and "hex_digit n \<noteq> CHR ''&''" and "hex_digit n \<noteq> CHR ''=''" and "hex_digit n \<noteq> CHR ''?''"
proof -
  from assms have "n \<in> set [0..<16]" by simp
  with hex_digits_checked
  have "unhex (hex_digit n) = Some n \<and> hex_digit n \<noteq> CHR ''&'' \<and>
        hex_digit n \<noteq> CHR ''='' \<and> hex_digit n \<noteq> CHR ''?''"
    unfolding list_all_iff by blast
  then show "unhex (hex_digit n) = Some n"
    and "hex_digit n \<noteq> CHR ''&''" and "hex_digit n \<noteq> CHR ''=''" and "hex_digit n \<noteq> CHR ''?''"
    by simp_all
qed

lemma of_char_nibbles:
  "of_char c div 16 < (16::nat)" "of_char c mod 16 < (16::nat)"
proof -
  have "of_char c mod 256 < (256::nat)" by (rule mod_less_divisor) simp
  then have "of_char c < (256::nat)" by simp
  then show "of_char c div 16 < (16::nat)" by arith
  show "of_char c mod 16 < (16::nat)" by simp
qed

lemma quote_char_not_special:
  assumes "x \<in> set (quote_char c)"
  shows "x \<noteq> CHR ''&'' \<and> x \<noteq> CHR ''='' \<and> x \<noteq> CHR ''?''"
proof (cases "always_safe c")
  case True
  with assms always_safe_not_special [of c] show ?thesis by (simp add: quote_char_def)
next
  case False
  note h = hex_digit_props(2-4) [OF of_char_nibbles(1) [of c]]
    hex_digit_props(2-4) [OF of_char_nibbles(2) [of c]]
  from False assms have "x = CHR ''+'' \<or> x = CHR ''%'' \<or> x = hex_digit (of_char c div 16)
      \<or> x = hex_digit (of_char c mod 16)"
    by (auto simp: quote_char_def split: if_splits)
  with h show ?thesis by auto
qed

lemma quote_plus_not_special:
  "x \<in> set (quote_plus s) \<Longrightarrow> x \<noteq> CHR ''&'' \<and> x \<noteq> CHR ''='' \<and> x \<noteq> CHR ''?''"
  using quote_char_not_special by (auto simp: quote_plus_def)

lemma unquote_quote_char: "unquote_plus (quote_char c @ rest) = c # unquote_plus rest"
proof (cases "always_safe c")
  case True
  with always_safe_not_special [of c] show ?thesis by (simp add: quote_char_def)
next
  case False
  show ?thesis
  proof (cases "c = CHR '' ''")
    case True
    with False show ?thesis by (simp add: quote_char_def)
  next
    case space: False
    have "char_of (16 * (of_char c div 16) + of_char c mod 16 :: nat) = c"
      by simp
    with False space show ?thesis
      by (simp add: quote_char_def hex_digit_props(1) [OF of_char_nibbles(1)]
          hex_digit_props(1) [OF of_char_nibbles(2)])
  qed
qed

lemma unquote_quote_plus_append: "unquote_plus (quote_plus s @ rest) = s @ unquote_plus rest"
proof (induction s)
  case Nil
  show ?case by (simp add: quote_plus_def)
next
  case (Cons c s)
  have "quote_plus (c # s) @ rest = quote_char c @ (quote_plus s @ rest)"
    by (simp add: quote_plus_def)
  with Cons show ?case by (simp only: unquote_quote_char) simp
qed

lemma unquote_quote_plus: "unquote_plus (quote_plus s) = s"
  using unquote_quote_plus_append [of s "[]"] by simp

lemma split_char_no_sep: "sep \<notin> set s \<Longrightarrow> split_char sep s = [s]"
  by (induction s) auto

lemma split_char_append: "sep \<notin> set a \<Longrightarrow> split_char sep (a @ sep # b) = a # split_char sep b"
  by (induction a) auto

lemma field_of_quoted:
  "CHR ''&'' \<notin> set (quote_plus t)" "CHR ''='' \<notin> set (quote_plus t)" "CHR ''?'' \<notin> set (quote_plus t)"
  using quote_plus_not_special [of _ t] by blast+

lemma query_parameters_user_data:
  "query_parameters (''fields=-links&access_token='' @ quote_plus t) =
     [(''fields'', ''-links''), (''access_token'', t)]"
proof -
  have "split_char CHR ''&'' (''fields=-links'' @ CHR ''&'' # (''access_token='' @ quote_plus t)) =
          [''fields=-links'', ''access_token='' @ quote_plus t]"
    by (subst split_char_append) (simp_all add: split_char_no_sep field_of_quoted)
  then show ?thesis
    by (simp add: query_parameters_def unquote_quote_plus)
qed

lemma query_parameters_emails:
  "query_parameters (''fields=-values.links&pagelen=100&access_token='' @ quote_plus t) =
     [(''fields'', ''-values.links''), (''pagelen'', ''100''), (''access_token'', t)]"
proof -
  have "split_char CHR ''&'' (''fields=-values.links'' @ CHR ''&'' # (''pagelen=100'' @ CHR ''&'' #
            (''access_token='' @ quote_plus t))) =
          [''fields=-values.links'', ''pagelen=100'', ''access_token='' @ quote_plus t]"
    by (subst split_char_append, simp, subst split_char_append, simp)
       (simp add: split_char_no_sep field_of_quoted)
  then show ?thesis
    by (simp add: query_parameters_def unquote_quote_plus)
qed

lemma url_parts:
  "CHR ''?'' \<notin> set base \<Longrightarrow> url_path (base @ CHR ''?'' # query) = base"
  "CHR ''?'' \<notin> set base \<Longrightarrow> url_query (base @ CHR ''?'' # query) = query"
  by (induction base) (auto simp: url_path_def url_query_def)


text \<open>
  C8: for every token string \<open>t\<close>, the profile request goes to \<open>BITBUCKET_USER_DATA_URL\<close>
  with the query \<open>fields=-links&access_token=t\<close>, and the emails request to
  \<open>BITBUCKET_USER_DATA_URL\<close> followed by \<open>/emails\<close> with the query
  \<open>fields=-values.links&pagelen=100&access_token=t\<close>, the token percent-encoded by
  \<open>urlencode\<close>: read back, the parameters are these names and values, in this order.
  \<open>user_data\<close> and \<open>_fetch_primary_email\<close> load exactly these URLs.
\<close>

theorem request_urls:
  "user_data_url E (JStr t) = BITBUCKET_USER_DATA_URL @ ''?fields=-links&access_token='' @ quote_plus t
   \<and> url_path (user_data_url E (JStr t)) = BITBUCKET_USER_DATA_URL
   \<and> query_parameters (url_query (user_data_url E (JStr t))) =
       [(''fields'', ''-links''), (''access_token'', t)]
   \<and> emails_url E (JStr t) =
       BITBUCKET_USER_DATA_URL @ ''/emails?fields=-values.links&pagelen=100&access_token='' @ quote_plus t
   \<and> url_path (emails_url E (JStr t)) = BITBUCKET_USER_DATA_URL @ ''/emails''
   \<and> query_parameters (url_query (emails_url E (JStr t))) =
       [(''fields'', ''-values.links''), (''pagelen'', ''100''), (''access_token'', t)]
   \<and> user_data E (JStr t) =
       (case load_url E (BITBUCKET_USER_DATA_URL @ ''?fields=-links&access_token='' @ quote_plus t) of
          Inl e \<Rightarrow> if isinstance e ValueError then Inr JNull else Inl e
        | Inr data \<Rightarrow> Inr data)
   \<and> fetch_primary_email E (JStr t) =
       (case fetch_emails E (BITBUCKET_USER_DATA_URL @
               ''/emails?fields=-values.links&pagelen=100&access_token='' @ quote_plus t) of
          Inl e \<Rightarrow> Inl e
        | Inr emails \<Rightarrow> (case py_iter emails of Inl e \<Rightarrow> Inl e | Inr items \<Rightarrow> primary_loop items))"
proof -
  have u: "user_data_url E (JStr t) =
      BITBUCKET_USER_DATA_URL @ CHR ''?'' # (''fields=-links&access_token='' @ quote_plus t)"
    by (simp add: user_data_url_str)
  have m: "emails_url E (JStr t) =
      (BITBUCKET_USER_DATA_URL @ ''/emails'') @
      CHR ''?'' # (''fields=-values.links&pagelen=100&access_token='' @ quote_plus t)"
    by (simp add: emails_url_str)
  have b: "CHR ''?'' \<notin> set BITBUCKET_USER_DATA_URL"
    "CHR ''?'' \<notin> set (BITBUCKET_USER_DATA_URL @ ''/emails'')"
    by (simp_all add: BITBUCKET_USER_DATA_URL_def)
  have "url_path (user_data_url E (JStr t)) = BITBUCKET_USER_DATA_URL"
    and "url_query (user_data_url E (JStr t)) = ''fields=-links&access_token='' @ quote_plus t"
    unfolding u by (rule url_parts [OF b(1)])+
  moreover have "url_path (emails_url E (JStr t)) = BITBUCKET_USER_DATA_URL @ ''/emails''"
    and "url_query (emails_url E (JStr t)) =
           ''fields=-values.links&pagelen=100&access_token='' @ quote_plus t"
    unfolding m by (rule url_parts [OF b(2)])+
  moreover have "user_data E (JStr t) =
       (case load_url E (BITBUCKET_USER_DATA_URL @ ''?fields=-links&access_token='' @ quote_plus t) of
          Inl e \<Rightarrow> if isinstance e ValueError then Inr JNull else Inl e
        | Inr data \<Rightarrow> Inr data)"
    by (simp add: user_data_def user_data_url_str)
  moreover have "fetch_primary_email E (JStr t) =
       (case fetch_emails E (BITBUCKET_USER_DATA_URL @
               ''/emails?fields=-values.links&pagelen=100&access_token='' @ quote_plus t) of
          Inl e \<Rightarrow> Inl e
        | Inr emails \<Rightarrow> (case py_iter emails of Inl e \<Rightarrow> Inl e | Inr items \<Rightarrow> primary_loop items))"
    by (simp add: fetch_primary_email_def emails_url_str)
  ultimately show ?thesis
    by (simp only: query_parameters_user_data query_parameters_emails user_data_url_str
        emails_url_str simp_thms)
qed

theorem request_urls_witness:
  "user_data_url scenario_env (JStr ''tok123'') =
     ''https://bitbucket.org/api/2.0/user/?fields=-links&access_token=tok123''
   \<and> emails_url scenario_env (JStr ''tok123'') =
     ''https://bitbucket.org/api/2.0/user//emails?fields=-values.links&pagelen=100&access_token=tok123''"
  using request_urls [of scenario_env "''tok123''"]
  by (simp add: quote_plus_tok123 BITBUCKET_USER_DATA_URL_def)

subsection \<open>The primary email\<close>

lemma primary_loop_records:
  "list_all email_record records \<Longrightarrow>
   primary_loop records =
     Inr (case find isPrimary records of None \<Rightarrow> JStr '''' | Some r \<Rightarrow> email_field r)"
proof (induction records)
  case Nil
  then show ?case by simp
next
  case (Cons r rs)
  from Cons.prems have r: "email_record r" and rs: "list_all email_record rs" by simp_all
  from r obtain kvs e b where kvs: "r = JObj kvs" "map_of kvs ''email'' = Some (JStr e)"
      "map_of kvs ''is_primary'' = Some (JBool b)"
    by (auto simp: email_record_def split: json.splits option.splits)
  show ?case
  proof (cases b)
    case True
    with kvs show ?thesis by (simp add: isPrimary_def email_field_def)
  next
    case False
    with kvs Cons.IH [OF rs] show ?thesis by (simp add: isPrimary_def)
  qed
qed

text \<open>
  C1: when the emails request is answered by a dict whose \<open>values\<close> is a list of email
  records, \<open>_fetch_primary_email\<close> returns the \<open>email\<close> field of the first record, in
  response order, whose \<open>is_primary\<close> is true, and the empty string when no record is
  primary.
\<close>

theorem fetch_primary_email_first_primary:
  assumes "load_url E (emails_url E access_token) = Inr (JObj data)"
    and "map_of data ''values'' = Some (JList records)"
    and "list_all email_record records"
  shows "fetch_primary_email E access_token =
           Inr (case find isPrimary records of None \<Rightarrow> JStr '''' | Some r \<Rightarrow> email_field r)"
  using assms(1,2) primary_loop_records [OF assms(3)]
  by (simp add: fetch_primary_email_def fetch_emails_def)

theorem fetch_primary_email_first_primary_witness:
  "fetch_primary_email scenario_env (JStr ''tok123'') = Inr (JStr ''grace@x.com'')"
  using fetch_primary_email_first_primary [OF scenario_load_emails, of
      "[JObj [(''email'', JStr ''g@x.com''), (''is_primary'', JBool False)],
        JObj [(''email'', JStr ''grace@x.com''), (''is_primary'', JBool True)]]"]
  by (simp add: email_record_def isPrimary_def email_field_def)

lemma scenario_email:
  "fetch_primary_email scenario_env (JStr ''tok123'') = Inr (JStr ''grace@x.com'')"
  using scenario_load_emails by (simp add: fetch_primary_email_def fetch_emails_def)

lemma fetch_primary_email_caught:
  "load_url E (emails_url E access_token) = Inl e \<Longrightarrow>
   isinstance e ValueError \<or> isinstance e HTTPError \<Longrightarrow>
   fetch_primary_email E access_token = Inr (JStr '''')"
  by (simp add: fetch_primary_email_def fetch_emails_def)

lemma denied_email: "fetch_primary_email denied_env access_token = Inr (JStr '''')"
  by (rule fetch_primary_email_caught [where e = HTTPError])
     (simp_all add: load_url_def denied_env_def)

text \<open>
  C3 (as the code has it): when the emails request raises, or its body fails to parse,
  with an exception \<open>e\<close>, \<open>_fetch_primary_email\<close> returns the empty string if \<open>e\<close> is a
  \<open>ValueError\<close> or an \<open>HTTPError\<close> (or of a subclass, as a JSON decode error is), and
  raises \<open>e\<close> otherwise.
\<close>

theorem fetch_primary_email_failure:
  assumes "dsa_urlopen E (emails_url E access_token) = Inl e \<or>
           (\<exists>body. dsa_urlopen E (emails_url E access_token) = Inr body \<and>
                   simplejson_load E body = Inl e)"
  shows "fetch_primary_email E access_token =
           (if isinstance e ValueError \<or> isinstance e HTTPError then Inr (JStr '''') else Inl e)"
proof -
  from assms have "load_url E (emails_url E access_token) = Inl e"
    by (auto simp: load_url_def)
  then show ?thesis
    by (simp add: fetch_primary_email_def fetch_emails_def)
qed

theorem fetch_primary_email_failure_witness:
  "fetch_primary_email garbled_env (JStr ''tok123'') = Inr (JStr '''')
   \<and> fetch_primary_email denied_env (JStr ''tok123'') = Inr (JStr '''')"
  using fetch_primary_email_failure [of garbled_env "JStr ''tok123''" JSONDecodeError]
    fetch_primary_email_failure [of denied_env "JStr ''tok123''" HTTPError]
  by (simp add: garbled_env_def denied_env_def)

subsection \<open>The user details\<close>

lemma get_user_details_JObj:
  "get_user_details E (JObj kvs) =
     (case fetch_primary_email E (case map_of kvs ''access_token'' of None \<Rightarrow> JNull | Some t \<Rightarrow> t) of
        Inl e \<Rightarrow> Inl e
      | Inr email \<Rightarrow>
          (let dn = (case map_of kvs ''display_name'' of None \<Rightarrow> JNull | Some v \<Rightarrow> v);
               details = [''username'' \<mapsto> (case map_of kvs ''username'' of None \<Rightarrow> JNull | Some u \<Rightarrow> u),
                          ''email'' \<mapsto> email]
           in if \<not> truthy dn then Inr (details(''first_name'' \<mapsto> JStr ''''))
              else case dn of
                JStr s \<Rightarrow>
                  if CHR '' '' \<in> set s
                  then Inr (details(''first_name'' \<mapsto> JStr (takeWhile (\<lambda>c. c \<noteq> CHR '' '') s),
                                    ''last_name'' \<mapsto> JStr (tl (dropWhile (\<lambda>c. c \<noteq> CHR '' '') s))))
                  else Inr (details(''first_name'' \<mapsto> JStr s))
              | _ \<Rightarrow> Inl AttributeError))"
  by (simp add: get_user_details_def split_space_1_def Let_def split: sum.splits json.splits)

text \<open>
  C3, the counterexample: with no connection the request raises \<open>URLError\<close>, which is
  neither a \<open>ValueError\<close> nor an \<open>HTTPError\<close>; it leaves \<open>_fetch_primary_email\<close> and
  \<open>get_user_details\<close>.
\<close>

theorem fetch_primary_email_failure_counterexample:
  "dsa_urlopen offline_env (emails_url offline_env (JStr ''tok123'')) = Inl URLError
   \<and> fetch_primary_email offline_env (JStr ''tok123'') = Inl URLError
   \<and> get_user_details offline_env
        (JObj [(''username'', JStr ''grace''), (''uuid'', JStr ''abc-123''),
               (''display_name'', JStr ''Grace Hopper''), (''access_token'', JStr ''tok123'')]) =
      Inl URLError"
  by (simp add: get_user_details_JObj fetch_primary_email_def fetch_emails_def load_url_def
      offline_env_def)

lemma first_space_decomposition:
  assumes "CHR '' '' \<in> set name"
  shows "name = takeWhile (\<lambda>c. c \<noteq> CHR '' '') name @ '' '' @ tl (dropWhile (\<lambda>c. c \<noteq> CHR '' '') name)"
    and "CHR '' '' \<notin> set (takeWhile (\<lambda>c. c \<noteq> CHR '' '') name)"
proof -
  let ?P = "\<lambda>c. c \<noteq> CHR '' ''"
  from assms have ne: "dropWhile ?P name \<noteq> []" by (simp add: dropWhile_eq_Nil_conv)
  then have "hd (dropWhile ?P name) = CHR '' ''" using hd_dropWhile [of ?P name] by simp
  with ne have "dropWhile ?P name = '' '' @ tl (dropWhile ?P name)"
    by (cases "dropWhile ?P name") simp_all
  then show "name = takeWhile ?P name @ '' '' @ tl (dropWhile ?P name)"
    using takeWhile_dropWhile_id [of ?P name] by simp
  show "CHR '' '' \<notin> set (takeWhile ?P name)"
    using set_takeWhileD by fastforce
qed

text \<open>
  C5 (as the code has it): when the email call returns, \<open>get_user_details\<close> cuts a string
  \<open>display_name\<close> at its first space character: the text before that space is
  \<open>first_name\<close> and all the text after it, further spaces included, is \<open>last_name\<close>;
  a name without a space is \<open>first_name\<close> whole, and \<open>last_name\<close> is not set.
\<close>

theorem get_user_details_splits_at_first_space:
  assumes "map_of kvs ''display_name'' = Some (JStr name)"
    and "fetch_primary_email E (case map_of kvs ''access_token'' of None \<Rightarrow> JNull | Some t \<Rightarrow> t) =
           Inr email"
  shows "\<exists>details. get_user_details E (JObj kvs) = Inr details \<and>
           (if CHR '' '' \<in> set name
            then \<exists>first_name last_name.
                   name = first_name @ '' '' @ last_name \<and> CHR '' '' \<notin> set first_name \<and>
                   details ''first_name'' = Some (JStr first_name) \<and>
                   details ''last_name'' = Some (JStr last_name)
            else details ''first_name'' = Some (JStr name) \<and> details ''last_name'' = None)"
proof (cases "CHR '' '' \<in> set name")
  case True
  then have "name \<noteq> []" by auto
  with True assms first_space_decomposition [OF True] show ?thesis
    by (simp add: get_user_details_def split_space_1_def)
next
  case False
  with assms show ?thesis
    by (cases "name = []") (simp_all add: get_user_details_def split_space_1_def)
qed

theorem get_user_details_splits_at_first_space_witness:
  "\<exists>details. get_user_details scenario_env
       (JObj [(''username'', JStr ''grace''), (''uuid'', JStr ''abc-123''),
              (''display_name'', JStr ''Grace Hopper''), (''access_token'', JStr ''tok123'')]) =
       Inr details \<and>
     (\<exists>first_name last_name.
        ''Grace Hopper'' = first_name @ '' '' @ last_name \<and> CHR '' '' \<notin> set first_name \<and>
        details ''first_name'' = Some (JStr first_name) \<and>
        details ''last_name'' = Some (JStr last_name))"
proof -
  have name: "map_of [(''username'', JStr ''grace''), (''uuid'', JStr ''abc-123''),
              (''display_name'', JStr ''Grace Hopper''), (''access_token'', JStr ''tok123'')]
            ''display_name'' = Some (JStr ''Grace Hopper'')"
    by simp
  have email: "fetch_primary_email scenario_env
       (case map_of [(''username'', JStr ''grace''), (''uuid'', JStr ''abc-123''),
              (''display_name'', JStr ''Grace Hopper''), (''access_token'', JStr ''tok123'')]
            ''access_token'' of None \<Rightarrow> JNull | Some t \<Rightarrow> t) = Inr (JStr ''grace@x.com'')"
    using scenario_email by simp
  show ?thesis
    using get_user_details_splits_at_first_space [OF name email] by simp
qed

text \<open>
  C5, the counterexample: in \<open>Ada  Lovelace\<close> the first whitespace run is two spaces.
  The code cuts at the first of them and keeps the second in \<open>last_name\<close>; the split at
  the whitespace run gives \<open>Lovelace\<close>.
\<close>

theorem get_user_details_splits_at_first_space_counterexample:
  "get_user_details denied_env (JObj [(''display_name'', JStr ''Ada  Lovelace'')]) =
     Inr [''username'' \<mapsto> JNull, ''email'' \<mapsto> JStr '''',
          ''first_name'' \<mapsto> JStr ''Ada'', ''last_name'' \<mapsto> JStr '' Lovelace'']
   \<and> split_first_whitespace_run ''Ada  Lovelace'' = (''Ada'', ''Lovelace'')
   \<and> '' Lovelace'' \<noteq> snd (split_first_whitespace_run ''Ada  Lovelace'')"
  by (simp add: get_user_details_def denied_email split_space_1_def
      split_first_whitespace_run_def is_whitespace_def)

text \<open>
  C6 (as the code has it): nothing is trimmed. For a \<open>display_name\<close> of \<open>n + 1\<close> spaces,
  when the email call returns, \<open>first_name\<close> is empty and \<open>last_name\<close> is the \<open>n\<close> spaces after
  the first one; the details are this one value, whatever else the profile holds.
\<close>

theorem get_user_details_spaces_only:
  assumes "map_of kvs ''display_name'' = Some (JStr (replicate (Suc n) CHR '' ''))"
    and "fetch_primary_email E (case map_of kvs ''access_token'' of None \<Rightarrow> JNull | Some t \<Rightarrow> t) =
           Inr email"
  shows "get_user_details E (JObj kvs) =
           Inr [''username'' \<mapsto> (case map_of kvs ''username'' of None \<Rightarrow> JNull | Some u \<Rightarrow> u),
                ''email'' \<mapsto> email,
                ''first_name'' \<mapsto> JStr '''',
                ''last_name'' \<mapsto> JStr (replicate n CHR '' '')]"
  using assms by (simp add: get_user_details_def split_space_1_def)

theorem get_user_details_spaces_only_witness:
  "get_user_details denied_env (JObj [(''display_name'', JStr ''  '')]) =
     Inr [''username'' \<mapsto> JNull, ''email'' \<mapsto> JStr '''',
          ''first_name'' \<mapsto> JStr '''', ''last_name'' \<mapsto> JStr '' '']"
  using get_user_details_spaces_only [of "[(''display_name'', JStr ''  '')]" 1 denied_env "JStr ''''"]
  by (simp add: denied_email)

text \<open>
  C6, the counterexample: for the \<open>display_name\<close> of two spaces, \<open>last_name\<close> is one space,
  not the empty string.
\<close>

theorem get_user_details_spaces_only_counterexample:
  "get_user_details denied_env (JObj [(''display_name'', JStr ''  '')]) =
     Inr [''username'' \<mapsto> JNull, ''email'' \<mapsto> JStr '''',
          ''first_name'' \<mapsto> JStr '''', ''last_name'' \<mapsto> JStr '' '']
   \<and> JStr '' '' \<noteq> JStr ''''"
  by (simp add: get_user_details_def denied_email split_space_1_def)

text \<open>
  C10: in the details \<open>get_user_details\<close> returns, the key \<open>last_name\<close> is present exactly
  when \<open>display_name\<close> is a string that contains a space character; for a name without a
  space, an empty name or a missing one the key is absent.
\<close>

theorem last_name_key_iff_space:
  assumes "get_user_details E response = Inr details"
  shows "''last_name'' \<in> dom details \<longleftrightarrow>
           (\<exists>kvs name. response = JObj kvs \<and> map_of kvs ''display_name'' = Some (JStr name) \<and>
                        CHR '' '' \<in> set name)"
proof (cases response)
  case (JObj kvs)
  show ?thesis
  proof (cases "map_of kvs ''display_name''")
    case None
    with assms JObj show ?thesis
      by (auto simp: get_user_details_JObj Let_def split: sum.splits)
  next
    case (Some dn)
    with assms JObj show ?thesis
      by (cases dn)
         (auto simp: get_user_details_JObj Let_def split: sum.splits if_splits)
  qed
qed (use assms in \<open>simp_all add: get_user_details_def\<close>)

theorem last_name_key_iff_space_witness:
  "''last_name'' \<notin> dom [''username'' \<mapsto> JNull, ''email'' \<mapsto> JStr '''', ''first_name'' \<mapsto> JStr ''Madonna'']
   \<and> get_user_details denied_env (JObj [(''display_name'', JStr ''Madonna'')]) =
     Inr [''username'' \<mapsto> JNull, ''email'' \<mapsto> JStr '''', ''first_name'' \<mapsto> JStr ''Madonna'']"
proof -
  have r: "get_user_details denied_env (JObj [(''display_name'', JStr ''Madonna'')]) =
     Inr [''username'' \<mapsto> JNull, ''email'' \<mapsto> JStr '''', ''first_name'' \<mapsto> JStr ''Madonna'']"
    by (simp add: get_user_details_def denied_email split_space_1_def)
  from last_name_key_iff_space [OF r] r show ?thesis by simp
qed

text \<open>
  C9: \<open>get_user_details\<close> is a function of the response and of what the email call
  returns for the response's token: two runs on the same response, in which the email call
  gives the same outcome, give the same result (the same details or the same exception).
\<close>

theorem get_user_details_deterministic:
  assumes "\<And>access_token. py_get response ''access_token'' JNull = Inr access_token \<Longrightarrow>
             fetch_primary_email E1 access_token = fetch_primary_email E2 access_token"
  shows "get_user_details E1 response = get_user_details E2 response"
proof (cases response)
  case (JObj kvs)
  with assms show ?thesis by (simp add: get_user_details_JObj)
qed (simp_all add: get_user_details_def)

theorem get_user_details_deterministic_witness:
  "get_user_details garbled_env (JObj [(''display_name'', JStr ''Ada Lovelace'')]) =
   get_user_details denied_env (JObj [(''display_name'', JStr ''Ada Lovelace'')])"
proof (rule get_user_details_deterministic)
  fix access_token
  show "fetch_primary_email garbled_env access_token = fetch_primary_email denied_env access_token"
    by (simp add: fetch_primary_email_def fetch_emails_def load_url_def garbled_env_def denied_env_def)
qed

subsection \<open>The unique id\<close>

text \<open>
  C7 (as the code has it): \<open>get_user_id\<close> succeeds exactly on a dict that has the key
  \<open>uuid\<close>, and then returns the value stored there as it is, with no check that it is a
  string or non-empty; without the key it raises \<open>KeyError\<close>, it never takes a default.
\<close>

theorem get_user_id_returns_stored_uuid:
  "(get_user_id details response = Inr v \<longleftrightarrow>
      (\<exists>kvs. response = JObj kvs \<and> map_of kvs ''uuid'' = Some v))
   \<and> (get_user_id details (JObj kvs) = Inl KeyError \<longleftrightarrow> map_of kvs ''uuid'' = None)"
  by (cases response) (auto simp: get_user_id_def split: option.splits)

theorem get_user_id_returns_stored_uuid_witness:
  "get_user_id Map.empty (JObj [(''username'', JStr ''grace''), (''uuid'', JStr ''abc-123'')]) =
     Inr (JStr ''abc-123'')
   \<and> get_user_id Map.empty (JObj [(''username'', JStr ''grace'')]) = Inl KeyError"
  using get_user_id_returns_stored_uuid
    [of Map.empty "JObj [(''username'', JStr ''grace''), (''uuid'', JStr ''abc-123'')]"
        "JStr ''abc-123''" "[(''username'', JStr ''grace'')]"]
  by simp

text \<open>
  C7, the counterexample: on a profile whose \<open>uuid\<close> is the empty string, \<open>get_user_id\<close>
  succeeds and the id is empty.
\<close>

theorem get_user_id_returns_stored_uuid_counterexample:
  "get_user_id [''username'' \<mapsto> JStr ''grace'']
     (JObj [(''username'', JStr ''grace''), (''uuid'', JStr '''')]) = Inr (JStr '''')"
  by (simp add: get_user_id_def)

text \<open>
  C2 (as the code has it): on a profile dict without \<open>uuid\<close>, \<open>get_user_id\<close> raises
  \<open>KeyError\<close>; \<open>get_user_details\<close> does not read \<open>uuid\<close>: it returns on such a profile
  what it returns on the same profile with a \<open>uuid\<close> added.
\<close>

theorem missing_uuid_fails_in_get_user_id_only:
  assumes "map_of kvs ''uuid'' = None"
  shows "get_user_id details (JObj kvs) = Inl KeyError \<and>
         get_user_details E (JObj kvs) = get_user_details E (JObj ((''uuid'', uuid) # kvs))"
  using assms by (simp add: get_user_id_def get_user_details_JObj split: sum.splits)

theorem missing_uuid_fails_in_get_user_id_only_witness:
  "get_user_id Map.empty
     (JObj [(''username'', JStr ''grace''), (''display_name'', JStr ''Grace Hopper''),
            (''access_token'', JStr ''tok123'')]) = Inl KeyError
   \<and> get_user_details scenario_env
         (JObj [(''username'', JStr ''grace''), (''display_name'', JStr ''Grace Hopper''),
                (''access_token'', JStr ''tok123'')]) =
       get_user_details scenario_env
         (JObj [(''uuid'', JStr ''abc-123''), (''username'', JStr ''grace''),
                (''display_name'', JStr ''Grace Hopper''), (''access_token'', JStr ''tok123'')])"
  using missing_uuid_fails_in_get_user_id_only
    [of "[(''username'', JStr ''grace''), (''display_name'', JStr ''Grace Hopper''),
          (''access_token'', JStr ''tok123'')]" Map.empty scenario_env "JStr ''abc-123''"]
  by simp

text \<open>
  C2, the counterexample: the scenario's profile without its \<open>uuid\<close>; \<open>get_user_details\<close>
  returns the details, it raises nothing.
\<close>

theorem missing_uuid_fails_in_get_user_id_only_counterexample:
  "map_of [(''username'', JStr ''grace''), (''display_name'', JStr ''Grace Hopper''),
           (''access_token'', JStr ''tok123'')] ''uuid'' = None
   \<and> get_user_details scenario_env
         (JObj [(''username'', JStr ''grace''), (''display_name'', JStr ''Grace Hopper''),
                (''access_token'', JStr ''tok123'')]) =
       Inr [''username'' \<mapsto> JStr ''grace'', ''email'' \<mapsto> JStr ''grace@x.com'',
            ''first_name'' \<mapsto> JStr ''Grace'', ''last_name'' \<mapsto> JStr ''Hopper'']"
  by (simp add: get_user_details_JObj scenario_email)

subsection \<open>The profile request\<close>





subsection \<open>The scenario of the specification, end to end\<close>

lemma scenario_end_to_end:
  "user_data scenario_env (JStr ''tok123'') =
     Inr (JObj [(''username'', JStr ''grace''), (''uuid'', JStr ''abc-123''),
                (''display_name'', JStr ''Grace Hopper'')])
   \<and> get_user_details scenario_env
         (JObj [(''access_token'', JStr ''tok123''), (''username'', JStr ''grace''),
                (''uuid'', JStr ''abc-123''), (''display_name'', JStr ''Grace Hopper'')]) =
       Inr [''username'' \<mapsto> JStr ''grace'', ''email'' \<mapsto> JStr ''grace@x.com'',
            ''first_name'' \<mapsto> JStr ''Grace'', ''last_name'' \<mapsto> JStr ''Hopper'']
   \<and> get_user_id [''username'' \<mapsto> JStr ''grace'']
         (JObj [(''access_token'', JStr ''tok123''), (''username'', JStr ''grace''),
                (''uuid'', JStr ''abc-123''), (''display_name'', JStr ''Grace Hopper'')]) =
       Inr (JStr ''abc-123'')"
proof (intro conjI)
  show "user_data scenario_env (JStr ''tok123'') =
     Inr (JObj [(''username'', JStr ''grace''), (''uuid'', JStr ''abc-123''),
                (''display_name'', JStr ''Grace Hopper'')])"
    by (simp add: user_data_def user_data_url_str quote_plus_tok123 BITBUCKET_USER_DATA_URL_def
        load_url_def scenario_env_def)
qed (simp_all add: get_user_details_JObj scenario_email get_user_id_def)

end
